theory Spec2Isabelle
  imports Complex_Main
begin

section \<open>The conversation client of \<open>openai_model.py\<close>\<close>

text \<open>
  The class \<open>OpenAIModel\<close> keeps a list of chat turns and the last raw reply of the
  remote completion endpoint. Every method is embedded as a function from the state of
  the object before the call to the outcome of the call and the state after it. An
  outcome is either an exception that leaves the method (\<open>Inl\<close>) or the value the
  method returns (\<open>Inr\<close>); Python's \<open>None\<close> is \<open>None\<close> of an option type.
  Writing to the log is the only effect left out.
\<close>

subsection \<open>Strings and \<open>str.strip\<close>\<close>

text \<open>
  A Python \<open>str\<close> is a \<open>string\<close> whose characters are the code points below 256.
  \<open>isspace\<close> is \<open>str.isspace\<close> on one character of that range: tab, line feed,
  vertical tab, form feed, carriage return, the four separators \<open>0x1C\<close> to \<open>0x1F\<close>,
  space, next line \<open>0x85\<close> and no-break space \<open>0xA0\<close>.
\<close>

definition isspace :: "char \<Rightarrow> bool" where
  "isspace c =
     (let n = (of_char c :: nat)
      in (9 \<le> n \<and> n \<le> 13) \<or> (28 \<le> n \<and> n \<le> 31) \<or> n = 32 \<or> n = 133 \<or> n = 160)"

text \<open>\<open>s.strip()\<close>: the leading whitespace goes, then the trailing whitespace.\<close>

definition strip :: "string \<Rightarrow> string" where
  "strip s = rev (dropWhile isspace (rev (dropWhile isspace s)))"

subsection \<open>Exceptions\<close>

text \<open>
  The instances of Python's \<open>Exception\<close> that the methods raise themselves, and
  \<open>RemoteError\<close> for whatever exception a call to the remote endpoint raises
  (connection, authentication, rate limit, ...), with its message.
\<close>

datatype exn =
    ValueError string
  | IndexError
  | AttributeError
  | TypeError string
  | RemoteError string

subsection \<open>Data\<close>

text \<open>An entry of \<open>self._messages\<close>: the dictionary \<open>{"role": ..., "content": ...}\<close>.\<close>

record chat_message =
  role :: string
  content :: string

text \<open>
  Modelled from the spec: the reply of the remote completion endpoint, whose type is
  declared by the \<open>openai\<close> package and not by this repository. It is a list of
  candidate completions, each with a message of a role and a content; the content may be
  missing (\<open>None\<close>). The components are the attributes of the object: the path
  \<open>response.choices[0].message.content\<close> of \<open>chat\<close> is the composition of the
  selectors below.
\<close>

record completion_message =
  reply_role :: string
  reply_content :: "string option"

record choice =
  message :: completion_message

record chat_completion =
  choices :: "choice list"

text \<open>
  Modelled from the spec: the catalog that \<open>client.models.list()\<close> returns, a
  collection of model records under \<open>data\<close>, each with its identifier \<open>id\<close>.
\<close>

record model_record =
  model_id :: string

record model_catalog =
  data :: "model_record list"

text \<open>
  \<open>obj[key]\<close> on an object that the client returns. The module imports \<open>OpenAI\<close>, the
  client class of the \<open>openai\<close> package from version 1.0 on; the replies, their
  candidates and messages, the catalog and its records are objects of classes that give
  their components as attributes only and define no \<open>__getitem__\<close>, so a subscript
  raises \<open>TypeError\<close> whatever the key.
\<close>

definition getitem :: "'a \<Rightarrow> string \<Rightarrow> exn + 'b" where
  "getitem obj key = Inl (TypeError ''object is not subscriptable'')"

text \<open>The argument \<open>stop\<close> of \<open>chat\<close>: a string or a list of strings.\<close>

datatype stop_arg = StopStr string | StopList "string list"

text \<open>The keyword arguments of \<open>client.chat.completions.create\<close>.\<close>

record completion_request =
  req_model :: string
  req_messages :: "chat_message list"
  req_max_tokens :: int
  req_temperature :: real
  req_top_p :: real
  req_n :: int
  req_stop :: "stop_arg option"

text \<open>
  The behaviour of the remote completion endpoint at one call: it raises or it returns a
  reply.
\<close>

type_synonym completions_create = "completion_request \<Rightarrow> exn + chat_completion"

text \<open>
  The attributes of an \<open>OpenAIModel\<close>: the credential held by \<open>self.client\<close>,
  \<open>model_name\<close>, \<open>max_tokens\<close>, \<open>_messages\<close> and \<open>_response\<close>.
\<close>

record openai_model =
  api_key :: string
  model_name :: string
  max_tokens :: int
  messages :: "chat_message list"
  response :: "chat_completion option"

subsection \<open>Construction\<close>

definition token_limits :: "(string \<times> int) list" where
  "token_limits = [(''gpt-4o-mini'', 16384), (''gpt-3.5-turbo'', 4096)]"

text \<open>
  \<open>token_limits.get(model_name)\<close> is \<open>None\<close> for a name that is not a key, and
  \<open>not max_tokens\<close> holds of \<open>None\<close> and of \<open>0\<close>.
\<close>

definition get_model_max_tokens :: "string \<Rightarrow> int" where
  "get_model_max_tokens name =
     (case map_of token_limits name of
        None \<Rightarrow> 4096
      | Some limit \<Rightarrow> if limit = 0 then 4096 else limit)"

definition init :: "string \<Rightarrow> string \<Rightarrow> bool \<Rightarrow> openai_model" where
  "init key name console_debug =
     \<lparr>api_key = key, model_name = name, max_tokens = get_model_max_tokens name,
      messages = [], response = None\<rparr>"

subsection \<open>The methods\<close>

definition valid_roles :: "string list" where
  "valid_roles = [''user'', ''assistant'', ''system'']"

definition add_message ::
  "string \<Rightarrow> string \<Rightarrow> openai_model \<Rightarrow> (exn + unit) \<times> openai_model" where
  "add_message r c s =
     (if r \<notin> set valid_roles then
        (Inl (ValueError ''Invalid role. Choose from 'user', 'assistant', or 'system'.''), s)
      else if strip c = [] then
        (Inl (ValueError ''Content must be a non-empty string.''), s)
      else
        (Inr (), s\<lparr>messages := messages s @ [\<lparr>role = r, content = strip c\<rparr>]\<rparr>))"

text \<open>The request that \<open>chat\<close> sends: the whole history and the generation parameters.\<close>

definition chat_request ::
  "real \<Rightarrow> real \<Rightarrow> int \<Rightarrow> stop_arg option \<Rightarrow> openai_model \<Rightarrow> completion_request" where
  "chat_request temperature top_p n stop s =
     \<lparr>req_model = model_name s, req_messages = messages s, req_max_tokens = max_tokens s,
      req_temperature = temperature, req_top_p = top_p, req_n = n, req_stop = stop\<rparr>"

text \<open>
  \<open>response.choices[0].message.content.strip()\<close>: \<open>IndexError\<close> on an empty list of
  candidates, \<open>AttributeError\<close> on a content that is \<open>None\<close>.
\<close>

definition response_content :: "chat_completion \<Rightarrow> exn + string" where
  "response_content r =
     (case choices r of
        [] \<Rightarrow> Inl IndexError
      | c # _ \<Rightarrow>
          (case reply_content (message c) of
             None \<Rightarrow> Inl AttributeError
           | Some t \<Rightarrow> Inr (strip t)))"

text \<open>The body of the \<open>try\<close> block of \<open>chat\<close>.\<close>

definition chat_try ::
  "completions_create \<Rightarrow> real \<Rightarrow> real \<Rightarrow> int \<Rightarrow> stop_arg option \<Rightarrow> openai_model
     \<Rightarrow> (exn + string) \<times> openai_model" where
  "chat_try create temperature top_p n stop s =
     (case create (chat_request temperature top_p n stop s) of
        Inl e \<Rightarrow> (Inl e, s)
      | Inr resp \<Rightarrow>
          (case response_content resp of
             Inl e \<Rightarrow> (Inl e, s)
           | Inr text \<Rightarrow>
               (case add_message ''assistant'' text s of
                  (Inl e, s1) \<Rightarrow> (Inl e, s1)
                | (Inr _, s1) \<Rightarrow> (Inr text, s1\<lparr>response := Some resp\<rparr>))))"

text \<open>\<open>except Exception\<close>: every exception of the block becomes the return value \<open>None\<close>.\<close>

definition chat ::
  "completions_create \<Rightarrow> real \<Rightarrow> real \<Rightarrow> int \<Rightarrow> stop_arg option \<Rightarrow> openai_model
     \<Rightarrow> (exn + string option) \<times> openai_model" where
  "chat create temperature top_p n stop s =
     (case chat_try create temperature top_p n stop s of
        (Inl e, s1) \<Rightarrow> (Inr None, s1)
      | (Inr text, s1) \<Rightarrow> (Inr (Some text), s1))"

definition reset_conversation :: "openai_model \<Rightarrow> (exn + unit) \<times> openai_model" where
  "reset_conversation s = (Inr (), s\<lparr>messages := [], response := None\<rparr>)"

text \<open>
  \<open>self._response['choices'][0]['message']['content']\<close>, the expression that
  \<open>get_last_response\<close> evaluates on the reply that \<open>chat\<close> stored: three subscripts
  with a string key and the index \<open>[0]\<close>, which raises \<open>IndexError\<close> on an empty
  list. The first exception ends the evaluation.
\<close>

definition subscript_content :: "chat_completion \<Rightarrow> exn + string option" where
  "subscript_content r =
     (case (getitem r ''choices'' :: exn + choice list) of
        Inl e \<Rightarrow> Inl e
      | Inr [] \<Rightarrow> Inl IndexError
      | Inr (c # _) \<Rightarrow>
          (case (getitem c ''message'' :: exn + completion_message) of
             Inl e \<Rightarrow> Inl e
           | Inr m \<Rightarrow> getitem m ''content''))"

text \<open>
  \<open>get_last_response\<close> has no \<open>try\<close>: an exception of the expression leaves the
  method. A stored reply is an object, which is true in \<open>if self._response\<close>.
\<close>

definition get_last_response :: "openai_model \<Rightarrow> (exn + string option) \<times> openai_model" where
  "get_last_response s =
     (case response s of
        None \<Rightarrow> (Inr None, s)
      | Some r \<Rightarrow> (subscript_content r, s))"

text \<open>
  \<open>[model['id'] for model in models['data']]\<close>: the identifiers in the order of the
  records, or the first exception.
\<close>

fun model_ids :: "model_record list \<Rightarrow> exn + string list" where
  "model_ids [] = Inr []"
| "model_ids (m # ms) =
     (case (getitem m ''id'' :: exn + string) of
        Inl e \<Rightarrow> Inl e
      | Inr i \<Rightarrow> (case model_ids ms of Inl e \<Rightarrow> Inl e | Inr ids \<Rightarrow> Inr (i # ids)))"

text \<open>The body of the \<open>try\<close> block of \<open>list_available_models\<close>.\<close>

definition list_available_models_try :: "exn + model_catalog \<Rightarrow> exn + string list" where
  "list_available_models_try models_list =
     (case models_list of
        Inl e \<Rightarrow> Inl e
      | Inr models \<Rightarrow>
          (case (getitem models ''data'' :: exn + model_record list) of
             Inl e \<Rightarrow> Inl e
           | Inr records \<Rightarrow> model_ids records))"

text \<open>\<open>except Exception\<close>: every exception of the block becomes the return value \<open>None\<close>.\<close>

definition list_available_models ::
  "exn + model_catalog \<Rightarrow> openai_model \<Rightarrow> (exn + string list option) \<times> openai_model" where
  "list_available_models models_list s =
     (case list_available_models_try models_list of
        Inl e \<Rightarrow> (Inr None, s)
      | Inr available_models \<Rightarrow> (Inr (Some available_models), s))"

subsection \<open>Sequences of calls\<close>

text \<open>
  A call of a public method, with the behaviour of the remote endpoint at that call. The
  object lives on when a method raises, so the state after a call is the second component
  whatever the outcome.
\<close>

datatype call =
    AddMessage string string
  | Chat completions_create real real int "stop_arg option"
  | ResetConversation
  | GetLastResponse
  | ListAvailableModels "exn + model_catalog"

fun step :: "call \<Rightarrow> openai_model \<Rightarrow> openai_model" where
  "step (AddMessage r c) s = snd (add_message r c s)"
| "step (Chat create temperature top_p n stop) s = snd (chat create temperature top_p n stop s)"
| "step ResetConversation s = snd (reset_conversation s)"
| "step GetLastResponse s = snd (get_last_response s)"
| "step (ListAvailableModels models_list) s = snd (list_available_models models_list s)"

fun run :: "call list \<Rightarrow> openai_model \<Rightarrow> openai_model" where
  "run [] s = s"
| "run (c # cs) s = run cs (step c s)"

text \<open>The mocked endpoints of the test scenarios: one that raises, one that replies.\<close>

definition raising :: "exn \<Rightarrow> completions_create" where
  "raising e req = Inl e"

definition replying :: "chat_completion \<Rightarrow> completions_create" where
  "replying r req = Inr r"

definition completion_of :: "string \<Rightarrow> chat_completion" where
  "completion_of t =
     \<lparr>choices = [\<lparr>message = \<lparr>reply_role = ''assistant'', reply_content = Some t\<rparr>\<rparr>]\<rparr>"

text \<open>The invariant of the history.\<close>

definition valid_message :: "chat_message \<Rightarrow> bool" where
  "valid_message m = (role m \<in> set valid_roles \<and> strip (content m) \<noteq> [])"

definition valid_history :: "openai_model \<Rightarrow> bool" where
  "valid_history s = list_all valid_message (messages s)"

text \<open>The state of the test scenarios: a new client with the one user turn \<open>Hi\<close>.\<close>

definition one_turn :: openai_model where
  "one_turn = snd (add_message ''user'' ''Hi'' (init ''sk-test'' ''gpt-4o-mini'' False))"

text \<open>The state after the endpoint has replied \<open>Bonjour!\<close> to that turn.\<close>

definition greeted :: openai_model where
  "greeted = snd (chat (replying (completion_of ''Bonjour!'')) 0.7 1 1 None one_turn)"

text \<open>
  A session that goes through every kind of call: rejected and accepted turns, a reply
  with surrounding whitespace, a blank reply, a failing endpoint, a read and a failing
  catalog query.
\<close>

definition session :: "call list" where
  "session =
     [AddMessage ''narrator'' ''Once upon a time'',
      AddMessage ''user'' '' Hi '',
      AddMessage ''user'' ''   '',
      Chat (replying (completion_of '' Bonjour! '')) 0.7 1 1 None,
      Chat (replying (completion_of ''   '')) 0.7 1 1 None,
      Chat (raising (RemoteError ''rate limit'')) 0.7 1 1 None,
      GetLastResponse,
      ListAvailableModels (Inl (RemoteError ''rate limit''))]"

definition catalog :: model_catalog where
  "catalog = \<lparr>data = [\<lparr>model_id = ''gpt-4o-mini''\<rparr>, \<lparr>model_id = ''gpt-3.5-turbo''\<rparr>]\<rparr>"

section \<open>Properties\<close>

lemmas eval_defs =
  one_turn_def greeted_def session_def catalog_def init_def get_model_max_tokens_def
  token_limits_def add_message_def valid_roles_def strip_def isspace_def chat_def chat_try_def
  chat_request_def response_content_def raising_def replying_def completion_of_def
  get_last_response_def subscript_content_def getitem_def reset_conversation_def
  list_available_models_def list_available_models_try_def

subsection \<open>Trimming\<close>

lemma strip_idem: "strip (strip s) = strip s"
proof -
  define a where "a = dropWhile isspace s"
  define b where "b = rev (dropWhile isspace (rev a))"
  have b_strip: "b = strip s"
    by (simp add: a_def b_def strip_def)
  have left: "dropWhile isspace b = b"
  proof (cases b)
    case Nil
    then show ?thesis by simp
  next
    case (Cons x xs)
    have "a = b @ rev (takeWhile isspace (rev a))"
      unfolding b_def
      by (metis rev_append rev_rev_ident takeWhile_dropWhile_id)
    with Cons have ha: "hd a = x" and "a \<noteq> []"
      by (metis append_Cons list.sel(1), metis append_Cons list.distinct(1) Cons)
    then have "\<not> isspace (hd a)"
      unfolding a_def by (metis hd_dropWhile)
    with ha Cons show ?thesis by simp
  qed
  have right: "dropWhile isspace (rev b) = rev b"
    by (simp add: b_def)
  have "strip b = b"
    by (simp add: strip_def left right)
  with b_strip show ?thesis by simp
qed

subsection \<open>The invariant is kept by every call\<close>

lemma strip_Nil: "strip [] = []"
  by (simp add: strip_def)

lemma valid_message_stripped:
  "r \<in> set valid_roles \<Longrightarrow> strip c \<noteq> [] \<Longrightarrow> valid_message \<lparr>role = r, content = strip c\<rparr>"
  by (simp add: valid_message_def strip_idem)

lemma add_message_valid_history:
  "valid_history s \<Longrightarrow> valid_history (snd (add_message r c s))"
  by (simp add: add_message_def valid_history_def valid_message_stripped)

lemma chat_try_outcomes:
  "chat_try create temperature top_p n stop s = (Inl e, s') \<Longrightarrow> s' = s"
  by (auto simp: chat_try_def add_message_def split: sum.splits if_splits)

lemma chat_try_success:
  "chat_try create temperature top_p n stop s = (Inr t, s') \<Longrightarrow>
     \<exists>resp c cs u. create (chat_request temperature top_p n stop s) = Inr resp \<and>
       choices resp = c # cs \<and> reply_content (message c) = Some u \<and> strip u \<noteq> [] \<and>
       t = strip u \<and>
       s' = s\<lparr>messages := messages s @ [\<lparr>role = ''assistant'', content = strip u\<rparr>],
              response := Some resp\<rparr>"
  by (auto simp: chat_try_def add_message_def response_content_def valid_roles_def strip_idem strip_Nil
      split: sum.splits if_splits list.splits option.splits)

lemma chat_valid_history:
  assumes "valid_history s"
  shows "valid_history (snd (chat create temperature top_p n stop s))"
proof (cases "chat_try create temperature top_p n stop s")
  case (Pair out s')
  show ?thesis
  proof (cases out)
    case (Inl e)
    with Pair have "s' = s" by (auto dest: chat_try_outcomes)
    with Pair Inl assms show ?thesis by (simp add: chat_def)
  next
    case (Inr t)
    with Pair obtain resp u where "strip u \<noteq> []"
      and "s' = s\<lparr>messages := messages s @ [\<lparr>role = ''assistant'', content = strip u\<rparr>],
              response := Some resp\<rparr>"
      by (auto dest!: chat_try_success)
    with Pair Inr assms show ?thesis
      by (simp add: chat_def valid_history_def valid_message_stripped valid_roles_def)
  qed
qed

lemma step_valid: "valid_history s \<Longrightarrow> valid_history (step c s)"
proof (cases c)
  case (AddMessage r t)
  assume "valid_history s"
  with AddMessage show ?thesis by (simp add: add_message_valid_history)
next
  case (Chat create temperature top_p n stop)
  assume "valid_history s"
  with Chat show ?thesis by (simp add: chat_valid_history)
next
  case ResetConversation
  then show ?thesis by (simp add: reset_conversation_def valid_history_def)
next
  case GetLastResponse
  assume "valid_history s"
  with GetLastResponse show ?thesis
    by (simp add: get_last_response_def split: option.splits)
next
  case (ListAvailableModels ml)
  assume "valid_history s"
  with ListAvailableModels show ?thesis
    by (simp add: list_available_models_def split: sum.splits)
qed

lemma run_valid: "valid_history s \<Longrightarrow> valid_history (run cs s)"
proof (induction cs arbitrary: s)
  case Nil
  then show ?case by simp
next
  case (Cons c cs)
  from Cons.prems have "valid_history (step c s)"
    by (rule step_valid)
  then show ?case by (simp add: Cons.IH)
qed

lemma init_valid: "valid_history (init key name dbg)"
  by (simp add: init_def valid_history_def)

lemma reachable_valid: "valid_history (run cs (init key name dbg))"
  by (rule run_valid [OF init_valid])

subsection \<open>What a call of \<open>chat\<close> does\<close>

text \<open>
  A reply whose first candidate has a content that is not blank: the trimmed content is
  returned and appended as an assistant turn, and the reply is stored.
\<close>

lemma chat_reply:
  assumes "create (chat_request temperature top_p n stop s) = Inr resp"
    and "choices resp = c # cs"
    and "reply_content (message c) = Some t"
    and "strip t \<noteq> []"
  shows "chat create temperature top_p n stop s =
     (Inr (Some (strip t)),
      s\<lparr>messages := messages s @ [\<lparr>role = ''assistant'', content = strip t\<rparr>],
        response := Some resp\<rparr>)"
  using assms
  by (simp add: chat_def chat_try_def response_content_def add_message_def valid_roles_def
      strip_idem)

subsection \<open>Subscripts on the objects of the client\<close>

text \<open>
  Once a reply is stored, \<open>get_last_response\<close> raises the \<open>TypeError\<close> of the first
  subscript, and the state is as before.
\<close>

lemma get_last_response_stored:
  "response s = Some r \<Longrightarrow>
     get_last_response s = (Inl (TypeError ''object is not subscriptable''), s)"
  by (simp add: get_last_response_def subscript_content_def getitem_def)

text \<open>
  \<open>list_available_models\<close> returns \<open>None\<close> whatever the catalog query does: its
  exception, or the \<open>TypeError\<close> of \<open>models['data']\<close>, is caught.
\<close>

lemma list_available_models_None: "list_available_models models_list s = (Inr None, s)"
  by (simp add: list_available_models_def list_available_models_try_def getitem_def
      split: sum.splits)

section \<open>The claims\<close>

text \<open>
  Claim C1. Whatever the state of the client, when the call to the remote completion
  endpoint raises, \<open>chat\<close> returns \<open>None\<close>, no exception leaves it, and the
  history (the whole state) is as it was before the call.
\<close>

theorem chat_remote_failure:
  assumes "create (chat_request temperature top_p n stop s) = Inl e"
  shows "fst (chat create temperature top_p n stop s) = Inr None \<and>
         messages (snd (chat create temperature top_p n stop s)) = messages s \<and>
         snd (chat create temperature top_p n stop s) = s"
  using assms by (simp add: chat_def chat_try_def)

text \<open>
  The scenario of a mocked endpoint that raises, on a client with one user turn: the
  history keeps its length 1 and the result is \<open>None\<close>.
\<close>

theorem chat_remote_failure_witness:
  "raising (RemoteError ''connection refused'') (chat_request 0.7 1 1 None one_turn) =
     Inl (RemoteError ''connection refused'') \<and>
   fst (chat (raising (RemoteError ''connection refused'')) 0.7 1 1 None one_turn) = Inr None \<and>
   length (messages (snd (chat (raising (RemoteError ''connection refused'')) 0.7 1 1 None
     one_turn))) = 1"
  using chat_remote_failure [of "raising (RemoteError ''connection refused'')" "0.7" 1 1 None
      one_turn "RemoteError ''connection refused''"]
  by (simp add: raising_def one_turn_def init_def add_message_def valid_roles_def strip_def
      isspace_def)

text \<open>
  Claim C2 does not hold of every reply of the remote endpoint: the endpoint replies
  with a blank content, \<open>add_message\<close> rejects it inside the \<open>try\<close> block, and
  \<open>chat\<close> returns \<open>None\<close> with the history as long as before.
\<close>

theorem chat_success_counterexample:
  "replying (completion_of ''   '') (chat_request 0.7 1 1 None one_turn) =
     Inr (completion_of ''   '') \<and>
   fst (chat (replying (completion_of ''   '')) 0.7 1 1 None one_turn) = Inr None \<and>
   length (messages (snd (chat (replying (completion_of ''   '')) 0.7 1 1 None one_turn))) =
     length (messages one_turn)"
  by (simp add: eval_defs)

text \<open>
  Claim C2, amended. Whatever the state of the client, when the remote completion call
  returns a reply whose first candidate has a text content that is not empty after
  trimming, \<open>chat\<close> returns the trimmed content of the first candidate, appends it to
  the history as an assistant turn, stores the raw reply as the last raw response, and the
  history grows by exactly one entry.
\<close>

theorem chat_success:
  assumes "create (chat_request temperature top_p n stop s) = Inr resp"
    and "choices resp = c # cs"
    and "reply_content (message c) = Some t"
    and "strip t \<noteq> []"
  shows "fst (chat create temperature top_p n stop s) = Inr (Some (strip t)) \<and>
         messages (snd (chat create temperature top_p n stop s)) =
           messages s @ [\<lparr>role = ''assistant'', content = strip t\<rparr>] \<and>
         response (snd (chat create temperature top_p n stop s)) = Some resp \<and>
         length (messages (snd (chat create temperature top_p n stop s))) =
           length (messages s) + 1"
  using assms chat_reply [of create temperature top_p n stop s resp c cs t] by simp

text \<open>
  The scenario of a mocked endpoint that replies \<open>Bonjour!\<close> between two spaces, on
  a client with the one user turn \<open>Hi\<close>.
\<close>

theorem chat_success_witness:
  "replying (completion_of '' Bonjour! '') (chat_request 0.7 1 1 None one_turn) =
     Inr (completion_of '' Bonjour! '') \<and>
   strip '' Bonjour! '' = ''Bonjour!'' \<and>
   fst (chat (replying (completion_of '' Bonjour! '')) 0.7 1 1 None one_turn) =
     Inr (Some ''Bonjour!'') \<and>
   messages (snd (chat (replying (completion_of '' Bonjour! '')) 0.7 1 1 None one_turn)) =
     [\<lparr>role = ''user'', content = ''Hi''\<rparr>, \<lparr>role = ''assistant'', content = ''Bonjour!''\<rparr>] \<and>
   response (snd (chat (replying (completion_of '' Bonjour! '')) 0.7 1 1 None one_turn)) =
     Some (completion_of '' Bonjour! '')"
  using chat_success [of "replying (completion_of '' Bonjour! '')" "0.7" 1 1 None one_turn
      "completion_of '' Bonjour! ''"
      "\<lparr>message = \<lparr>reply_role = ''assistant'', reply_content = Some '' Bonjour! ''\<rparr>\<rparr>" "[]"
      "'' Bonjour! ''"]
  by (simp add: replying_def completion_of_def one_turn_def init_def add_message_def
      valid_roles_def strip_def isspace_def)

text \<open>
  Claim C3. \<open>get_last_response\<close> is to return the assistant text of the last stored raw
  response, and \<open>None\<close> when none is stored; after a \<open>chat\<close> that returned
  \<open>Bonjour!\<close> it is to return \<open>Bonjour!\<close>. The code does not: on the client with
  the one user turn \<open>Hi\<close> and an endpoint that replies \<open>Bonjour!\<close>, \<open>chat\<close>
  returns \<open>Bonjour!\<close> and stores the reply, and \<open>get_last_response\<close> then raises
  \<open>TypeError\<close>, because it subscripts the object that \<open>chat\<close> read by attributes.
  Only the case of no stored response is as claimed.
\<close>

theorem get_last_response_raises:
  "fst (chat (replying (completion_of ''Bonjour!'')) 0.7 1 1 None one_turn) =
     Inr (Some ''Bonjour!'') \<and>
   messages greeted =
     [\<lparr>role = ''user'', content = ''Hi''\<rparr>, \<lparr>role = ''assistant'', content = ''Bonjour!''\<rparr>] \<and>
   response greeted = Some (completion_of ''Bonjour!'') \<and>
   fst (get_last_response greeted) = Inl (TypeError ''object is not subscriptable'') \<and>
   fst (get_last_response (init ''sk-test'' ''gpt-4o-mini'' False)) = Inr None"
  by (simp add: eval_defs)

text \<open>
  Claim C4. \<open>add_message\<close> raises exactly when the role is not one of \<open>user\<close>,
  \<open>assistant\<close>, \<open>system\<close> or the content is empty after trimming; the exception
  is the \<open>ValueError\<close> of the invalid role in the first case and the
  \<open>ValueError\<close> of the empty content when only the content is at fault; and whenever
  it raises, the history (the whole state) is unchanged.
\<close>

theorem add_message_raises:
  "((\<exists>e. fst (add_message r c s) = Inl e) \<longleftrightarrow>
      r \<notin> {''user'', ''assistant'', ''system''} \<or> strip c = []) \<and>
   (r \<notin> {''user'', ''assistant'', ''system''} \<longrightarrow>
      fst (add_message r c s) =
        Inl (ValueError ''Invalid role. Choose from 'user', 'assistant', or 'system'.'')) \<and>
   (r \<in> {''user'', ''assistant'', ''system''} \<and> strip c = [] \<longrightarrow>
      fst (add_message r c s) = Inl (ValueError ''Content must be a non-empty string.'')) \<and>
   ((\<exists>e. fst (add_message r c s) = Inl e) \<longrightarrow> snd (add_message r c s) = s)"
  by (simp add: add_message_def valid_roles_def)

text \<open>
  The role \<open>narrator\<close> and the content of three spaces are both rejected, and the
  history keeps its one entry.
\<close>

theorem add_message_raises_witness:
  "''narrator'' \<notin> {''user'', ''assistant'', ''system''} \<and>
   fst (add_message ''narrator'' ''Once upon a time'' one_turn) =
     Inl (ValueError ''Invalid role. Choose from 'user', 'assistant', or 'system'.'') \<and>
   snd (add_message ''narrator'' ''Once upon a time'' one_turn) = one_turn \<and>
   ''user'' \<in> {''user'', ''assistant'', ''system''} \<and> strip ''   '' = [] \<and>
   fst (add_message ''user'' ''   '' one_turn) =
     Inl (ValueError ''Content must be a non-empty string.'') \<and>
   snd (add_message ''user'' ''   '' one_turn) = one_turn \<and>
   length (messages one_turn) = 1"
  using add_message_raises [of "''narrator''" "''Once upon a time''" one_turn]
    add_message_raises [of "''user''" "''   ''" one_turn]
  by (simp add: one_turn_def init_def add_message_def valid_roles_def strip_def isspace_def)

text \<open>
  Claim C5. Construction resolves the model identifier against the table of token
  limits: \<open>gpt-4o-mini\<close> gives 16384, \<open>gpt-3.5-turbo\<close> gives 4096, and every
  identifier that is not a key of the table gives the default 4096. Construction is a
  total function: it does not fail.
\<close>

theorem model_max_tokens:
  "max_tokens (init key ''gpt-4o-mini'' dbg) = 16384 \<and>
   max_tokens (init key ''gpt-3.5-turbo'' dbg) = 4096 \<and>
   (name \<notin> fst ` set token_limits \<longrightarrow> max_tokens (init key name dbg) = 4096) \<and>
   max_tokens (init key name dbg) = get_model_max_tokens name \<and>
   fst ` set token_limits = {''gpt-4o-mini'', ''gpt-3.5-turbo''}"
  by (auto simp: init_def get_model_max_tokens_def token_limits_def)

text \<open>
  The identifier \<open>foo-bar\<close> is not in the table and resolves to 4096.
\<close>

theorem model_max_tokens_witness:
  "''foo-bar'' \<notin> fst ` set token_limits \<and>
   max_tokens (init ''sk-test'' ''foo-bar'' False) = 4096"
  using model_max_tokens [of "''sk-test''" False "''foo-bar''"]
  by (simp add: token_limits_def)

text \<open>
  Claim C6. In every state reached from construction by any sequence of calls of
  \<open>add_message\<close>, \<open>chat\<close>, \<open>reset_conversation\<close>, \<open>get_last_response\<close>
  and \<open>list_available_models\<close>, whatever the remote endpoint does, every entry of the
  history has one of the three roles and a content that is not empty after trimming.
\<close>

theorem history_invariant:
  "\<forall>m \<in> set (messages (run calls (init key name dbg))).
     role m \<in> {''user'', ''assistant'', ''system''} \<and> strip (content m) \<noteq> []"
proof -
  have "valid_history (run calls (init key name dbg))"
    using reachable_valid by simp
  then show ?thesis
    by (simp add: valid_history_def list_all_iff valid_message_def valid_roles_def)
qed

text \<open>
  After the session the history holds the two accepted turns, and the last one satisfies
  the invariant.
\<close>

theorem history_invariant_witness:
  "messages (run session (init ''sk-test'' ''gpt-4o-mini'' False)) =
     [\<lparr>role = ''user'', content = ''Hi''\<rparr>, \<lparr>role = ''assistant'', content = ''Bonjour!''\<rparr>] \<and>
   role (last (messages (run session (init ''sk-test'' ''gpt-4o-mini'' False)))) \<in>
     {''user'', ''assistant'', ''system''} \<and>
   strip (content (last (messages (run session (init ''sk-test'' ''gpt-4o-mini'' False))))) \<noteq> []"
  using history_invariant [of session "''sk-test''" "''gpt-4o-mini''" False]
  by (simp add: eval_defs)

text \<open>
  Claim C7. After \<open>reset_conversation\<close>, whatever sequence of calls came before
  (and in fact from any state), the history has length 0 and \<open>get_last_response\<close>
  returns \<open>None\<close>; resetting twice is the same as resetting once.
\<close>

theorem reset_conversation_clears:
  "length (messages (snd (reset_conversation (run calls (init key name dbg))))) = 0 \<and>
   fst (get_last_response (snd (reset_conversation (run calls (init key name dbg))))) =
     Inr None \<and>
   length (messages (snd (reset_conversation s))) = 0 \<and>
   fst (get_last_response (snd (reset_conversation s))) = Inr None \<and>
   reset_conversation (snd (reset_conversation s)) = reset_conversation s"
  by (simp add: reset_conversation_def get_last_response_def)

text \<open>
  Claim C8. \<open>list_available_models\<close> is to return the identifiers of the catalog when
  the query succeeds and \<open>None\<close> when it fails, and never to raise. The code never
  raises, and returns \<open>None\<close> when the query raises; but on a query that returns a
  catalog of two models it returns \<open>None\<close> too: \<open>models['data']\<close> raises
  \<open>TypeError\<close> inside the \<open>try\<close> block.
\<close>

theorem list_available_models_loses_catalog:
  "fst (list_available_models (Inr catalog) one_turn) = Inr None \<and>
   snd (list_available_models (Inr catalog) one_turn) = one_turn \<and>
   fst (list_available_models (Inl (RemoteError ''unauthorized'')) one_turn) = Inr None"
  by (simp add: list_available_models_def list_available_models_try_def getitem_def)

text \<open>
  Claim C9. After a \<open>chat\<close> on a reply whose first candidate's content has surrounding
  whitespace, \<open>chat\<close> has returned and stored the trimmed text and
  \<open>get_last_response\<close> is to return the untrimmed content of the stored raw response.
  The code does the first half: on the client with the one user turn \<open>Hi\<close> and the reply
  \<open>Salut\<close> between spaces, \<open>chat\<close> returns \<open>Salut\<close>, appends it to the history
  and stores the raw reply. It then raises \<open>TypeError\<close> in \<open>get_last_response\<close> and
  returns no value at all, by the same subscript as in claim C3.
\<close>

theorem get_last_response_raises_after_trimming:
  "fst (chat (replying (completion_of ''  Salut  '')) 0.7 1 1 None one_turn) =
     Inr (Some ''Salut'') \<and>
   messages (snd (chat (replying (completion_of ''  Salut  '')) 0.7 1 1 None one_turn)) =
     [\<lparr>role = ''user'', content = ''Hi''\<rparr>, \<lparr>role = ''assistant'', content = ''Salut''\<rparr>] \<and>
   response (snd (chat (replying (completion_of ''  Salut  '')) 0.7 1 1 None one_turn)) =
     Some (completion_of ''  Salut  '') \<and>
   fst (get_last_response
     (snd (chat (replying (completion_of ''  Salut  '')) 0.7 1 1 None one_turn))) =
     Inl (TypeError ''object is not subscriptable'')"
  by (simp add: eval_defs)

text \<open>
  Claim C10. When the remote completion call returns a reply whose first candidate's
  content is empty after trimming, \<open>chat\<close> returns \<open>None\<close> and leaves the
  history and the stored last raw response as they were: the \<open>ValueError\<close> of
  \<open>add_message\<close> is caught before the reply is stored.
\<close>

theorem chat_blank_content:
  assumes "create (chat_request temperature top_p n stop s) = Inr resp"
    and "choices resp = c # cs"
    and "reply_content (message c) = Some t"
    and "strip t = []"
  shows "fst (chat create temperature top_p n stop s) = Inr None \<and>
         messages (snd (chat create temperature top_p n stop s)) = messages s \<and>
         response (snd (chat create temperature top_p n stop s)) = response s"
  using assms
  by (simp add: chat_def chat_try_def response_content_def add_message_def valid_roles_def
      strip_Nil)

text \<open>
  A blank reply after the reply \<open>Bonjour!\<close>: the history and the stored reply
  are those of the earlier call.
\<close>

theorem chat_blank_content_witness:
  "replying (completion_of ''   '') (chat_request 0.7 1 1 None greeted) =
     Inr (completion_of ''   '') \<and>
   strip ''   '' = [] \<and>
   fst (chat (replying (completion_of ''   '')) 0.7 1 1 None greeted) = Inr None \<and>
   messages (snd (chat (replying (completion_of ''   '')) 0.7 1 1 None greeted)) =
     [\<lparr>role = ''user'', content = ''Hi''\<rparr>, \<lparr>role = ''assistant'', content = ''Bonjour!''\<rparr>] \<and>
   response (snd (chat (replying (completion_of ''   '')) 0.7 1 1 None greeted)) =
     Some (completion_of ''Bonjour!'')"
  using chat_blank_content [of "replying (completion_of ''   '')" "0.7" 1 1 None greeted
      "completion_of ''   ''"
      "\<lparr>message = \<lparr>reply_role = ''assistant'', reply_content = Some ''   ''\<rparr>\<rparr>" "[]" "''   ''"]
  by (simp add: eval_defs)

end
